theory Spec2Isabelle
  imports Complex_Main
begin

section \<open>Spike trains and label normalisation\<close>

text \<open>
  A spike train is the numpy array of shape [N, 2] of the source: one row per event, the
  spike time (a sample index) in column 0 and the unit label in column 1. Rows are kept in
  array order. Labels and times are integers; the source fixes no width for them, and they
  are modelled as unbounded integers.
\<close>

type_synonym spike = "int \<times> int"

datatype exn = AttributeError | IndexError | ValueError

text \<open>\<^verbatim>\<open>np.unique\<close>: the sorted distinct values.\<close>

definition np_unique :: "int list \<Rightarrow> int list" where
  "np_unique xs = sort (remdups xs)"

text \<open>
  The loop \<^verbatim>\<open>for i, u in enumerate(units): spt[spt[:, 1] == u, 1] = i\<close>, from position
  \<open>i\<close> on: every row whose label is \<open>u\<close> at that moment gets the label \<open>i\<close>.
\<close>

fun relabel :: "nat \<Rightarrow> int list \<Rightarrow> spike list \<Rightarrow> spike list" where
  "relabel i [] spt = spt"
| "relabel i (u # us) spt =
     relabel (Suc i) us (map (\<lambda>(t, l). if l = u then (t, int i) else (t, l)) spt)"

text \<open>
  \<^verbatim>\<open>clean_spike_train(spt)\<close>: the contents of the array \<open>spt\<close> when the function returns.
  The labels are first shifted by the number of distinct labels, then renumbered in the
  order of the sorted distinct labels.
\<close>

definition clean_spike_train :: "spike list \<Rightarrow> spike list" where
  "clean_spike_train spt =
     (let units = np_unique (map snd spt);
          n = int (length units);
          spt1 = map (\<lambda>(t, l). (t, l + n)) spt;
          units1 = map (\<lambda>u. u + n) units
      in relabel 0 units1 spt1)"

text \<open>The times of the rows with a given label, in array order: \<^verbatim>\<open>spt[spt[:, 1] == u, 0]\<close>.\<close>

definition times_of :: "spike list \<Rightarrow> int \<Rightarrow> int list" where
  "times_of spt u = map fst (filter (\<lambda>s. snd s = u) spt)"

text \<open>
  \<^verbatim>\<open>np.max\<close> of a one-dimensional array, and \<^verbatim>\<open>max\<close> of one: ValueError on an empty one.
\<close>

definition np_max :: "int list \<Rightarrow> exn + int" where
  "np_max xs = (if xs = [] then Inl ValueError else Inr (Max (set xs)))"

subsection \<open>The call on the caller's array\<close>

text \<open>
  The source works on the array it is given: \<^verbatim>\<open>spt[:, 1] += len(units)\<close> and
  \<^verbatim>\<open>spt[u_idx, 1] = i\<close> write into \<open>spt\<close>, and \<^verbatim>\<open>return spt\<close> hands the same array
  back. A numpy array does not own its rows: it is a view onto a buffer, and several
  arrays (an array and its slices) can share one buffer. The store maps the address of a
  buffer to the rows that the buffer holds; an array is the address of its buffer with the
  positions of the buffer that are its rows, in the order of the array. The array
  \<^verbatim>\<open>base[1:]\<close> of an array \<open>base\<close> of three rows has the buffer of \<open>base\<close> and the positions
  1 and 2.
\<close>

type_synonym store = "nat \<Rightarrow> spike list"

record ndarray =
  nd_base :: nat
  nd_rows :: "nat list"

text \<open>The rows that an array shows.\<close>

definition nd_contents :: "store \<Rightarrow> ndarray \<Rightarrow> spike list" where
  "nd_contents h a = map (\<lambda>p. h (nd_base a) ! p) (nd_rows a)"

text \<open>
  An array is well formed in a store when its rows are distinct positions inside its
  buffer, as the rows of an array and of its slices are.
\<close>

definition well_formed :: "store \<Rightarrow> ndarray \<Rightarrow> bool" where
  "well_formed h a \<longleftrightarrow>
     distinct (nd_rows a) \<and> list_all (\<lambda>p. p < length (h (nd_base a))) (nd_rows a)"

text \<open>
  An assignment through the array that replaces each of its rows \<open>r\<close> by \<open>f r\<close>: the rows
  are written into the buffer at the positions of the array.
\<close>

definition write_rows :: "(spike \<Rightarrow> spike) \<Rightarrow> ndarray \<Rightarrow> store \<Rightarrow> store" where
  "write_rows f a h =
     h(nd_base a := fold (\<lambda>p buf. buf[p := f (buf ! p)]) (nd_rows a) (h (nd_base a)))"

fun relabel_store :: "nat \<Rightarrow> int list \<Rightarrow> ndarray \<Rightarrow> store \<Rightarrow> store" where
  "relabel_store i [] a h = h"
| "relabel_store i (u # us) a h =
     relabel_store (Suc i) us a
       (write_rows (\<lambda>(t, l). if l = u then (t, int i) else (t, l)) a h)"

text \<open>
  \<^verbatim>\<open>clean_spike_train(spt)\<close> as a call: it takes the array and the store and returns the
  array of its \<^verbatim>\<open>return\<close> with the store it leaves behind. \<^verbatim>\<open>units\<close> is a fresh array of
  \<^verbatim>\<open>np.unique\<close> and stays local.
\<close>

definition clean_spike_train_inplace :: "ndarray \<Rightarrow> store \<Rightarrow> ndarray \<times> store" where
  "clean_spike_train_inplace spt h =
     (let units = np_unique (map snd (nd_contents h spt));
          n = int (length units);
          h1 = write_rows (\<lambda>(t, l). (t, l + n)) spt h;
          units1 = map (\<lambda>u. u + n) units
      in (spt, relabel_store 0 units1 spt h1))"

text \<open>
  A store with one buffer of three rows at address 0, the array \<open>whole_array\<close> of all its
  rows and the slice \<open>tail_array\<close> of its last two rows (\<^verbatim>\<open>whole_array[1:]\<close>).
\<close>

definition caller_store :: store where
  "caller_store = (\<lambda>a. if a = 0 then [(100, 5), (200, 7), (300, 5)] else [])"

definition whole_array :: ndarray where
  "whole_array = \<lparr> nd_base = 0, nd_rows = [0, 1, 2] \<rparr>"

definition tail_array :: ndarray where
  "tail_array = \<lparr> nd_base = 0, nd_rows = [1, 2] \<rparr>"

section \<open>RecordingBatchIterator\<close>

text \<open>
  A batch is the array of shape [batch_time_samples, n_chan] that \<^verbatim>\<open>next_batch\<close> returns:
  a list of rows, one row of channel values for each time sample. The samples are floats in
  the source; they are modelled by rationals, and rounding is not modelled. Filtering and
  whitening are functions of other modules: \<open>rbi_batches\<close> holds, for each full batch of the
  file, the array that \<^verbatim>\<open>next_batch\<close> returns for it, and \<open>rbi_cursor\<close> is the position of
  the file in batches. When less than a batch is left, \<^verbatim>\<open>np.reshape\<close> raises ValueError.
\<close>

type_synonym block = "rat list list"

record RecordingBatchIterator =
  rbi_batch_time_samples :: nat
  rbi_n_chan :: nat
  rbi_batches :: "block list"
  rbi_cursor :: nat

definition next_batch :: "RecordingBatchIterator \<Rightarrow> exn + (block \<times> RecordingBatchIterator)" where
  "next_batch r =
     (if rbi_cursor r < length (rbi_batches r)
      then Inr (rbi_batches r ! rbi_cursor r, r\<lparr>rbi_cursor := Suc (rbi_cursor r)\<rparr>)
      else Inl ValueError)"

definition reset_cursor :: "RecordingBatchIterator \<Rightarrow> RecordingBatchIterator" where
  "reset_cursor r = r\<lparr>rbi_cursor := 0\<rparr>"

section \<open>numpy indexing\<close>

text \<open>
  An index \<open>i\<close> into an axis of length \<open>n\<close>: positions \<open>0\<close> to \<open>n - 1\<close> are themselves, and
  the negative indices \<open>-n\<close> to \<open>-1\<close> count from the end. Every other index raises
  IndexError, which is \<open>None\<close> here.
\<close>

definition np_index :: "nat \<Rightarrow> int \<Rightarrow> nat option" where
  "np_index n i =
     (if 0 \<le> i \<and> i < int n then Some (nat i)
      else if - int n \<le> i \<and> i < 0 then Some (nat (i + int n))
      else None)"

text \<open>\<^verbatim>\<open>ts[idx, :]\<close> with an array of indices: the rows at these indices, in their order.\<close>

definition np_take_rows :: "block \<Rightarrow> int list \<Rightarrow> exn + block" where
  "np_take_rows ts idx =
     (if list_all (\<lambda>i. np_index (length ts) i \<noteq> None) idx
      then Inr (map (\<lambda>i. ts ! the (np_index (length ts) i)) idx)
      else Inl IndexError)"

text \<open>The sum of two arrays of the same shape.\<close>

definition mat_add :: "block \<Rightarrow> block \<Rightarrow> block" where
  "mat_add a b = map2 (map2 (\<lambda>x y. x + y)) a b"

text \<open>
  The spikes of batch \<open>i\<close>, with batch-local times: the rows whose time lies strictly
  between \<open>i * n_samples\<close> and \<open>(i + 1) * n_samples\<close>. Indexing with a boolean mask copies, so the
  subtraction does not reach the train itself.
\<close>

definition batch_spikes :: "nat \<Rightarrow> nat \<Rightarrow> spike list \<Rightarrow> spike list" where
  "batch_spikes n_samples i spt =
     map (\<lambda>(t, l). (t - int n_samples * int i, l))
       (filter (\<lambda>(t, l). int i * int n_samples < t \<and> t < (int i + 1) * int n_samples) spt)"

section \<open>MeanWaveCalculator\<close>

text \<open>
  A template is an array of shape [len(window), n_chan]; \<open>mwc_templates\<close> holds one for
  each unit (the last axis of \<^verbatim>\<open>self.templates\<close>).
\<close>

type_synonym template = "rat list list"

record MeanWaveCalculator =
  mwc_batch_reader :: RecordingBatchIterator
  mwc_spike_train :: "spike list"
  mwc_window :: "int list"
  mwc_n_units :: nat
  mwc_templates :: "template list"

text \<open>
  What the loops of \<^verbatim>\<open>compute_templates\<close> update: \<^verbatim>\<open>self.templates\<close>, and the locals
  \<^verbatim>\<open>counts\<close> and \<^verbatim>\<open>boundary_violation\<close>.
\<close>

record accumulation =
  acc_templates :: "template list"
  acc_counts :: "rat list"
  acc_boundary_violation :: nat

text \<open>
  The body of the loop over the spikes of a batch, for the spike \<open>s\<close> with its batch-local
  time:
  \<^verbatim>\<open>
  try:
      self.templates[:, :, spt[j, 1]] += ts[spt[j, 0] + self.window, :]
      counts[spt[j, 1]] += 1
  except:
      boundary_violation += 1
  \<close>
  An exception of one of the two index operations leaves the templates and the counts as
  they were. The batch and the templates have the same number of channels, that of the
  reader.
\<close>

definition add_snippet :: "int list \<Rightarrow> block \<Rightarrow> spike \<Rightarrow> accumulation \<Rightarrow> accumulation" where
  "add_snippet w ts s st =
     (case np_index (length (acc_templates st)) (snd s) of
        None \<Rightarrow> st\<lparr>acc_boundary_violation := acc_boundary_violation st + 1\<rparr>
      | Some u \<Rightarrow>
          (case np_take_rows ts (map (\<lambda>k. fst s + k) w) of
             Inl e \<Rightarrow> st\<lparr>acc_boundary_violation := acc_boundary_violation st + 1\<rparr>
           | Inr snippet \<Rightarrow>
               st\<lparr>acc_templates := (acc_templates st)[u := mat_add (acc_templates st ! u) snippet],
                  acc_counts := (acc_counts st)[u := acc_counts st ! u + 1]\<rparr>))"

text \<open>The loop over the batches; \<open>is\<close> are the batch numbers that are still to come.\<close>

fun compute_templates_loop ::
  "int list \<Rightarrow> nat \<Rightarrow> spike list \<Rightarrow> nat list \<Rightarrow> RecordingBatchIterator \<Rightarrow> accumulation
     \<Rightarrow> exn + (RecordingBatchIterator \<times> accumulation)" where
  "compute_templates_loop w n_samples spt [] r st = Inr (r, st)"
| "compute_templates_loop w n_samples spt (i # is) r st =
     (case next_batch r of
        Inl e \<Rightarrow> Inl e
      | Inr (ts, r') \<Rightarrow>
          compute_templates_loop w n_samples spt is r'
            (fold (add_snippet w ts) (batch_spikes n_samples i spt) st))"

text \<open>\<^verbatim>\<open>if counts[u]: self.templates[:, :, u] /= counts[u]\<close>, for every unit.\<close>

definition divide_by_counts :: "rat list \<Rightarrow> template list \<Rightarrow> template list" where
  "divide_by_counts counts tpls =
     map (\<lambda>u. if counts ! u \<noteq> 0 then map (map (\<lambda>x. x / counts ! u)) (tpls ! u) else tpls ! u)
       [0 ..< length tpls]"

text \<open>
  \<^verbatim>\<open>compute_templates(n_batches)\<close>: the object after the call and the value returned, the
  number of boundary violations.
\<close>

definition compute_templates ::
  "MeanWaveCalculator \<Rightarrow> nat \<Rightarrow> exn + (MeanWaveCalculator \<times> nat)" where
  "compute_templates self n_batches =
     (let st0 = \<lparr> acc_templates = mwc_templates self,
                  acc_counts = replicate (mwc_n_units self) 0,
                  acc_boundary_violation = 0 \<rparr>;
          n_samples = rbi_batch_time_samples (mwc_batch_reader self)
      in case compute_templates_loop (mwc_window self) n_samples (mwc_spike_train self)
                [0 ..< n_batches] (mwc_batch_reader self) st0 of
           Inl e \<Rightarrow> Inl e
         | Inr (r, st) \<Rightarrow>
             Inr (self\<lparr> mwc_batch_reader := r,
                        mwc_templates := divide_by_counts (acc_counts st) (acc_templates st) \<rparr>,
                  acc_boundary_violation st))"

text \<open>
  The constructor: the window is \<^verbatim>\<open>range(-10, 30)\<close>, the train is normalised, the number of
  units is the largest label plus one (\<^verbatim>\<open>max\<close> raises ValueError on an empty train), the
  templates start at zero and are computed from five batches.
\<close>

definition MeanWaveCalculator_init ::
  "RecordingBatchIterator \<Rightarrow> spike list \<Rightarrow> exn + (MeanWaveCalculator \<times> nat)" where
  "MeanWaveCalculator_init batch_reader spike_train0 =
     (let window = [-10 .. 29];
          spike_train = clean_spike_train spike_train0
      in case np_max (map (\<lambda>s. snd s + 1) spike_train) of
           Inl e \<Rightarrow> Inl e
         | Inr m \<Rightarrow>
             if m < 0 then Inl ValueError
             else compute_templates
                    \<lparr> mwc_batch_reader = batch_reader,
                      mwc_spike_train = spike_train,
                      mwc_window = window,
                      mwc_n_units = nat m,
                      mwc_templates =
                        replicate (nat m) (replicate (length window)
                          (replicate (rbi_n_chan batch_reader) 0)) \<rparr>
                    5)"

section \<open>RecordingAugmentation\<close>

text \<open>
  The statistics are floats: a mean and a standard deviation of logarithms, and a count.
  They are modelled by reals. \<^verbatim>\<open>np.mean\<close> and \<^verbatim>\<open>np.std\<close> of an empty array do not raise:
  they return nan, which is \<open>None\<close> here.
\<close>

definition np_mean :: "real list \<Rightarrow> real option" where
  "np_mean xs = (if xs = [] then None else Some (sum_list xs / real (length xs)))"

definition np_std :: "real list \<Rightarrow> real option" where
  "np_std xs =
     (if xs = [] then None
      else let m = sum_list xs / real (length xs)
           in Some (sqrt (sum_list (map (\<lambda>x. (x - m)\<^sup>2) xs) / real (length xs))))"

text \<open>
  The row of unit \<open>u\<close> that the body of the conditional of \<^verbatim>\<open>compute_stat_summary\<close> writes:
  the differences of consecutive sorted spike times, a difference of 0 replaced by 1, their
  logarithms, and the mean, the standard deviation and \<^verbatim>\<open>len(spt_u)\<close>.
\<close>

definition unit_stat :: "spike list \<Rightarrow> nat \<Rightarrow> real option \<times> real option \<times> real" where
  "unit_stat spt u =
     (let spt_u = sort (times_of spt (int u));
          u_firing_diff = map2 (\<lambda>a b. a - b) (tl spt_u) (butlast spt_u);
          u_firing_diff1 = map (\<lambda>d. if d = 0 then 1 else d) u_firing_diff;
          u_firing_diff2 = map (\<lambda>d. ln (real_of_int d)) u_firing_diff1
      in (np_mean u_firing_diff2, np_std u_firing_diff2, real (length spt_u)))"

text \<open>
  \<^verbatim>\<open>compute_stat_summary\<close>. The condition of the source is \<^verbatim>\<open>len(spt > 2)\<close>: \<^verbatim>\<open>spt > 2\<close> is
  the array of the comparisons of every entry of the whole train with 2, and its length is
  the number of rows of the train. The condition holds when the train has a row.
\<close>

definition compute_stat_summary ::
  "nat \<Rightarrow> spike list \<Rightarrow> (real option \<times> real option \<times> real) list" where
  "compute_stat_summary n_units spt =
     map (\<lambda>u. if length spt \<noteq> 0 then unit_stat spt u else (Some 0, Some 0, 0))
       [0 ..< n_units]"

text \<open>
  The object. \<^verbatim>\<open>__init__\<close> sets \<^verbatim>\<open>template_comp\<close> (and \<^verbatim>\<open>template_calculator\<close>, the same
  object), the geometry with its channel map, and \<^verbatim>\<open>stat_summary\<close>. The geometry serves
  \<^verbatim>\<open>move_spatial_trace\<close> only and is left out. \<open>aug_window\<close> is the attribute \<^verbatim>\<open>window\<close> of
  the instance, which \<^verbatim>\<open>save_augment_recording\<close> reads as \<^verbatim>\<open>self.window\<close>: \<open>None\<close> when the
  instance has no such attribute. The class does not define it and \<^verbatim>\<open>__init__\<close> does not
  set it; the window of the templates is an attribute of the MeanWaveCalculator.
\<close>

record RecordingAugmentation =
  aug_template_comp :: MeanWaveCalculator
  aug_stat_summary :: "(real option \<times> real option \<times> real) list"
  aug_window :: "int list option"

definition RecordingAugmentation_init :: "MeanWaveCalculator \<Rightarrow> RecordingAugmentation" where
  "RecordingAugmentation_init mean_wave_calculator =
     \<lparr> aug_template_comp = mean_wave_calculator,
       aug_stat_summary =
         compute_stat_summary (mwc_n_units mean_wave_calculator)
           (mwc_spike_train mean_wave_calculator),
       aug_window = None \<rparr>"

subsection \<open>make_fake_spike_train\<close>

definition refractory_period :: int where
  "refractory_period = 60"

text \<open>
  The new times of one unit, from the two random draws of the loop body: \<open>chosen\<close> is the
  array that \<^verbatim>\<open>np.random.choice(spt_u, new_spike_count, replace=False)\<close> returns and \<open>sampled\<close>
  the array \<^verbatim>\<open>diffs\<close>, that is \<^verbatim>\<open>np.exp(np.random.normal(...)).astype('int')\<close>, both of \<^verbatim>\<open>new_spike_count\<close>
  entries.
  \<^verbatim>\<open>
  offsets = np.sort(chosen)
  diffs[diffs < refractory_period] += refractory_period
  times += list(offsets + diffs)
  \<close>
\<close>

definition unit_fake_times :: "int list \<Rightarrow> int list \<Rightarrow> int list" where
  "unit_fake_times chosen sampled =
     (let offsets = sort chosen;
          sampled1 = map (\<lambda>d. if d < refractory_period then d + refractory_period else d)
                       sampled
      in map2 (\<lambda>x y. x + y) offsets sampled1)"

text \<open>
  \<^verbatim>\<open>make_fake_spike_train(augment_rate)\<close>. The two random draws are parameters: \<open>choice u xs k\<close>
  is the draw of \<open>k\<close> of the times \<open>xs\<close> for unit \<open>u\<close>, and \<open>normal u k\<close> the \<open>k\<close> sampled
  differences of unit \<open>u\<close> after the conversion to integers.
\<close>

definition make_fake_spike_train ::
  "RecordingAugmentation \<Rightarrow> real \<Rightarrow> (nat \<Rightarrow> int list \<Rightarrow> nat \<Rightarrow> int list)
     \<Rightarrow> (nat \<Rightarrow> nat \<Rightarrow> int list) \<Rightarrow> spike list" where
  "make_fake_spike_train self augment_rate choice normal =
     concat (map (\<lambda>u.
       let spt_u = sort (times_of (mwc_spike_train (aug_template_comp self)) (int u));
           new_spike_count = nat \<lfloor>snd (snd (aug_stat_summary self ! u)) * augment_rate\<rfloor>;
           sampled = normal u new_spike_count;
           chosen = choice u spt_u new_spike_count
       in map (\<lambda>t. (t, int u)) (unit_fake_times chosen sampled))
       [0 ..< mwc_n_units (aug_template_comp self)])"

subsection \<open>save_augment_recording\<close>

text \<open>
  \<^verbatim>\<open>moved = np.zeros(n_units)\<close>, then \<^verbatim>\<open>moved[u] = i\<close> for the \<open>i\<close>-th of the sorted units that
  were drawn to be moved, counting from 0.
\<close>

definition mark_moved :: "nat \<Rightarrow> nat list \<Rightarrow> nat list" where
  "mark_moved n_units moved_units =
     fold (\<lambda>(i, u) moved. moved[u := i]) (enumerate 0 moved_units) (replicate n_units 0)"

text \<open>
  \<^verbatim>\<open>ts[idx, :] += tpl\<close>: the rows at the indices \<open>idx\<close> are read (IndexError when an index
  is out of range), the template is added to them, and the sums are written back at the
  same indices. The template has one row for each index and the channels of the batch.
\<close>

definition np_add_rows :: "block \<Rightarrow> int list \<Rightarrow> template \<Rightarrow> exn + block" where
  "np_add_rows ts idx tpl =
     (case np_take_rows ts idx of
        Inl e \<Rightarrow> Inl e
      | Inr rows \<Rightarrow>
          Inr (fold (\<lambda>(i, row) ts'. ts'[the (np_index (length ts) i) := row])
                 (zip idx (mat_add rows tpl)) ts))"

text \<open>
  The body of the loop over the augmented spikes of a batch, for the spike \<open>s\<close> with its
  batch-local time, on the batch and the local counter \<^verbatim>\<open>boundary_violation\<close>:
  \<^verbatim>\<open>
  cid = spt[j, 1]
  try:
      if moved[cid]:
          ts[spt[j, 0] + self.window, :] += moved_templates[:, :, moved[cid]]
      else:
          ts[spt[j, 0] + self.window, :] += orig_templates[:, :, cid]
  except:
      boundary_violation += 1
  \<close>
  Every exception inside \<^verbatim>\<open>try\<close> is caught, the AttributeError of \<^verbatim>\<open>self.window\<close> too, and
  leaves the batch as it was. The entry of \<^verbatim>\<open>moved\<close> is taken as the index it denotes.
\<close>

definition add_template ::
  "RecordingAugmentation \<Rightarrow> nat list \<Rightarrow> template list \<Rightarrow> spike \<Rightarrow> block \<times> nat \<Rightarrow> block \<times> nat"
  where
  "add_template self moved moved_templates s acc =
     (let ts = fst acc; boundary_violation = snd acc;
          orig_templates = mwc_templates (aug_template_comp self)
      in case np_index (length moved) (snd s) of
           None \<Rightarrow> (ts, boundary_violation + 1)
         | Some cid \<Rightarrow>
             (case aug_window self of
                None \<Rightarrow> (ts, boundary_violation + 1)
              | Some window \<Rightarrow>
                  (case (if moved ! cid \<noteq> 0
                         then map_option (\<lambda>k. moved_templates ! k)
                                (np_index (length moved_templates) (int (moved ! cid)))
                         else map_option (\<lambda>k. orig_templates ! k)
                                (np_index (length orig_templates) (snd s))) of
                     None \<Rightarrow> (ts, boundary_violation + 1)
                   | Some tpl \<Rightarrow>
                       (case np_add_rows ts (map (\<lambda>k. fst s + k) window) tpl of
                          Inl e \<Rightarrow> (ts, boundary_violation + 1)
                        | Inr ts' \<Rightarrow> (ts', boundary_violation)))))"

text \<open>
  \<^verbatim>\<open>ts.astype('int16')\<close> on one sample: the fraction is cut off. numpy does not define the
  result for a value outside the range of the type; \<open>None\<close> stands for it.
\<close>

definition astype_int16 :: "rat \<Rightarrow> int option" where
  "astype_int16 x =
     (let i = (if 0 \<le> x then \<lfloor>x\<rfloor> else \<lceil>x\<rceil>)
      in if - 32768 \<le> i \<and> i \<le> 32767 then Some i else None)"

text \<open>
  The loop over the batches: the batch is read, the templates of its augmented spikes are
  added, and the batch is scaled, converted and appended to the output file. \<open>out\<close> holds
  the batches written so far.
\<close>

fun augment_loop ::
  "RecordingAugmentation \<Rightarrow> nat list \<Rightarrow> template list \<Rightarrow> rat \<Rightarrow> nat \<Rightarrow> spike list
     \<Rightarrow> nat list \<Rightarrow> RecordingBatchIterator \<Rightarrow> int option list list list \<Rightarrow> nat
     \<Rightarrow> exn + (RecordingBatchIterator \<times> int option list list list \<times> nat)" where
  "augment_loop self moved moved_templates scale n_samples aug_spt [] r out bv =
     Inr (r, out, bv)"
| "augment_loop self moved moved_templates scale n_samples aug_spt (i # is) r out bv =
     (case next_batch r of
        Inl e \<Rightarrow> Inl e
      | Inr (ts, r') \<Rightarrow>
          (let (ts1, bv1) = fold (add_template self moved moved_templates)
                              (batch_spikes n_samples i aug_spt) (ts, bv);
               ts2 = map (map (\<lambda>x. x * scale)) ts1;
               ts3 = map (map astype_int16) ts2
           in augment_loop self moved moved_templates scale n_samples aug_spt is r'
                (out @ [ts3]) bv1))"

text \<open>
  The last loop: the augmented spikes of every unit \<open>u\<close> with \<^verbatim>\<open>moved[u]\<close> not zero get the
  next new unit number.
\<close>

fun reassign_moved :: "nat list \<Rightarrow> nat list \<Rightarrow> int \<Rightarrow> spike list \<Rightarrow> spike list" where
  "reassign_moved moved [] new_unit_id aug_spt = aug_spt"
| "reassign_moved moved (u # us) new_unit_id aug_spt =
     (if moved ! u \<noteq> 0
      then reassign_moved moved us (new_unit_id + 1)
             (map (\<lambda>(t, l). if l = int u then (t, new_unit_id) else (t, l)) aug_spt)
      else reassign_moved moved us new_unit_id aug_spt)"

text \<open>
  \<^verbatim>\<open>save_augment_recording(out_file_name, length, move_rate, scale)\<close>, with \<open>move_rate\<close>
  between 0 and 1. The random draws are parameters. \<open>unit_choice n k\<close> is the array that
  \<^verbatim>\<open>np.random.choice(range(n), k, replace=False)\<close> returns. \<open>spatial i tpl\<close> is the template
  that \<^verbatim>\<open>move_spatial_trace\<close> returns for the template \<open>tpl\<close> of the \<open>i\<close>-th moved unit and the
  distance drawn for it; it depends on the geometry of the probe, which is left out.
  \<open>choice\<close> and \<open>normal\<close> are the draws of \<^verbatim>\<open>make_fake_spike_train\<close>, which is called with
  its default rate of 0.25. The result is the train returned, the batches written to the
  file, the last value of the local \<^verbatim>\<open>boundary_violation\<close> and the reader.
\<close>

definition save_augment_recording ::
  "RecordingAugmentation \<Rightarrow> nat \<Rightarrow> rat \<Rightarrow> rat \<Rightarrow> (nat \<Rightarrow> nat \<Rightarrow> nat list)
     \<Rightarrow> (nat \<Rightarrow> template \<Rightarrow> template)
     \<Rightarrow> (nat \<Rightarrow> int list \<Rightarrow> nat \<Rightarrow> int list) \<Rightarrow> (nat \<Rightarrow> nat \<Rightarrow> int list)
     \<Rightarrow> exn + (spike list \<times> int option list list list \<times> nat \<times> RecordingBatchIterator)" where
  "save_augment_recording self len move_rate scale unit_choice spatial choice normal =
     (let reader = reset_cursor (mwc_batch_reader (aug_template_comp self));
          orig_templates = mwc_templates (aug_template_comp self);
          n_units = mwc_n_units (aug_template_comp self);
          moved_units = sort (unit_choice n_units (nat \<lfloor>move_rate * of_nat n_units\<rfloor>));
          moved_templates =
            map (\<lambda>(i, u). spatial i (orig_templates ! u)) (enumerate 0 moved_units);
          moved = mark_moved n_units moved_units;
          aug_spt = make_fake_spike_train self (1 / 4) choice normal;
          n_samples = rbi_batch_time_samples reader
      in case augment_loop self moved moved_templates scale n_samples aug_spt
                [0 ..< len] reader [] 0 of
           Inl e \<Rightarrow> Inl e
         | Inr (r, out, bv) \<Rightarrow>
             Inr (mwc_spike_train (aug_template_comp self)
                    @ reassign_moved moved [0 ..< n_units] (int n_units) aug_spt,
                  out, bv, r))"

section \<open>A small recording\<close>

text \<open>
  A recording of one channel and five batches of fifty samples. In \<open>ramp_reader\<close> the sample
  at local time \<open>i\<close> of every batch has the value \<open>i\<close>, so that a template shows which samples
  it was taken from; in \<open>flat_reader\<close> every sample is 1.
\<close>

definition ramp_reader :: RecordingBatchIterator where
  "ramp_reader =
     \<lparr> rbi_batch_time_samples = 50, rbi_n_chan = 1,
       rbi_batches = replicate 5 (map (\<lambda>i. [of_nat i]) [0 ..< 50]), rbi_cursor = 0 \<rparr>"

definition flat_reader :: RecordingBatchIterator where
  "flat_reader =
     \<lparr> rbi_batch_time_samples = 50, rbi_n_chan = 1,
       rbi_batches = replicate 5 (replicate 50 [1]), rbi_cursor = 0 \<rparr>"

text \<open>
  The MeanWaveCalculator that the constructor builds from \<open>flat_reader\<close> and the train
  (20, 4), (120, 4), (70, 9): two units, the first with two spikes and the second with one,
  and two templates of ones.
\<close>

definition flat_calculator :: MeanWaveCalculator where
  "flat_calculator =
     \<lparr> mwc_batch_reader = flat_reader\<lparr>rbi_cursor := 5\<rparr>,
       mwc_spike_train = [(20, 0), (120, 0), (70, 1)],
       mwc_window = [-10 .. 29],
       mwc_n_units = 2,
       mwc_templates = [replicate 40 [1], replicate 40 [1]] \<rparr>"

text \<open>
  Two draws for \<^verbatim>\<open>make_fake_spike_train\<close>: the choice of the first \<open>k\<close> of the times, and
  the sampled differences 70, 80, ...
\<close>

definition first_choice :: "nat \<Rightarrow> int list \<Rightarrow> nat \<Rightarrow> int list" where
  "first_choice u xs k = take k xs"

definition fixed_normal :: "nat \<Rightarrow> nat \<Rightarrow> int list" where
  "fixed_normal u k = map (\<lambda>j. 70 + 10 * int j) [0 ..< k]"

text \<open>
  A longer recording: two channels and five batches of two hundred samples, every sample 1.
  \<open>long_calculator\<close> is the MeanWaveCalculator that the constructor builds from it and the
  train of two units with four spikes each, at the times 20, 110, 230, 320 and
  70, 160, 260, 350.
\<close>

definition long_reader :: RecordingBatchIterator where
  "long_reader =
     \<lparr> rbi_batch_time_samples = 200, rbi_n_chan = 2,
       rbi_batches = replicate 5 (replicate 200 [1, 1]), rbi_cursor = 0 \<rparr>"

definition long_calculator :: MeanWaveCalculator where
  "long_calculator =
     \<lparr> mwc_batch_reader = long_reader\<lparr>rbi_cursor := 5\<rparr>,
       mwc_spike_train = [(20, 0), (110, 0), (230, 0), (320, 0),
                          (70, 1), (160, 1), (260, 1), (350, 1)],
       mwc_window = [-10 .. 29],
       mwc_n_units = 2,
       mwc_templates = [replicate 40 [1, 1], replicate 40 [1, 1]] \<rparr>"

text \<open>A draw of \<open>k\<close> of the units 0 to \<open>n - 1\<close>: the last \<open>k\<close> of them.\<close>

definition last_units :: "nat \<Rightarrow> nat \<Rightarrow> nat list" where
  "last_units n k = take k (rev [0 ..< n])"

text \<open>
  Sampled differences for the longer recording, close to the differences of the spike times
  of each unit: 85 samples for unit 0 and 95 for unit 1.
\<close>

definition near_normal :: "nat \<Rightarrow> nat \<Rightarrow> int list" where
  "near_normal u k = replicate k (if u = 0 then 85 else 95)"

section \<open>SpikeSortingEvaluation\<close>

text \<open>
  The count vectors, the confusion matrix and the accuracies are float64 arrays in the
  source (\<^verbatim>\<open>np.zeros\<close>). They hold small integers and quotients of two of them, and are
  modelled by rationals; rounding is not modelled. A float division by zero does not raise
  in numpy: it yields nan or an infinity. \<open>None\<close> stands for such a value.
\<close>

definition fdiv :: "rat \<Rightarrow> rat \<Rightarrow> rat option" where
  "fdiv x y = (if y = 0 then None else Some (x / y))"

text \<open>
  \<^verbatim>\<open>xs / ys\<close> on two one-dimensional arrays: elementwise when the lengths agree, broadcast
  when one of them has length one, ValueError otherwise.
\<close>

definition np_divide :: "rat list \<Rightarrow> rat list \<Rightarrow> exn + rat option list" where
  "np_divide xs ys =
     (if length xs = length ys then Inr (map2 fdiv xs ys)
      else if length xs = 1 then Inr (map (\<lambda>y. fdiv (hd xs) y) ys)
      else if length ys = 1 then Inr (map (\<lambda>x. fdiv x (hd ys)) xs)
      else Inl ValueError)"

text \<open>\<^verbatim>\<open>np.argmax\<close>: the position of the first occurrence of the maximum.\<close>

definition np_argmax :: "rat list \<Rightarrow> nat" where
  "np_argmax xs = length (takeWhile (\<lambda>x. x \<noteq> Max (set xs)) xs)"

text \<open>
  \<^verbatim>\<open>xs[idx]\<close> with an array of nonnegative indices: IndexError when one of them is out of
  range.
\<close>

definition np_take :: "rat list \<Rightarrow> nat list \<Rightarrow> exn + rat list" where
  "np_take xs idx =
     (if list_all (\<lambda>i. i < length xs) idx then Inr (map (\<lambda>i. xs ! i) idx)
      else Inl IndexError)"

text \<open>
  \<^verbatim>\<open>count_spikes(spt)\<close>: one entry for each label from 0 to the largest label, the number of
  rows that carry it. \<^verbatim>\<open>np.zeros\<close> raises ValueError on a negative length.
\<close>

definition count_spikes :: "spike list \<Rightarrow> exn + rat list" where
  "count_spikes spt =
     (case np_max (map snd spt) of
        Inl e \<Rightarrow> Inl e
      | Inr m \<Rightarrow>
          if m + 1 < 0 then Inl ValueError
          else Inr (map (\<lambda>u. of_nat (length (filter (\<lambda>s. snd s = int u) spt)))
                     [0 ..< nat (m + 1)]))"

definition admissible_proximity :: int where
  "admissible_proximity = 60"

text \<open>
  \<^verbatim>\<open>count_matches(array1, array2)\<close>. The two cursors \<open>i\<close> and \<open>j\<close> of the source are the
  parts of the two arrays that are still to be read; the loop stops when one is used up.
\<close>

fun count_matches_loop :: "int list \<Rightarrow> int list \<Rightarrow> nat \<Rightarrow> nat" where
  "count_matches_loop (a # as) (b # bs) count =
     (if \<bar>a - b\<bar> < admissible_proximity then count_matches_loop as bs (count + 1)
      else if a < b then count_matches_loop as (b # bs) count
      else count_matches_loop (a # as) bs count)"
| "count_matches_loop [] bs count = count"
| "count_matches_loop as [] count = count"

definition count_matches :: "int list \<Rightarrow> int list \<Rightarrow> nat" where
  "count_matches array1 array2 = count_matches_loop array1 array2 0"

definition compute_confusion_matrix ::
  "nat \<Rightarrow> nat \<Rightarrow> spike list \<Rightarrow> spike list \<Rightarrow> rat list list" where
  "compute_confusion_matrix n_units n_clusters spt_base spt =
     map (\<lambda>unit.
       map (\<lambda>cluster.
         of_nat (count_matches (times_of spt_base (int unit)) (times_of spt (int cluster))))
         [0 ..< n_clusters])
       [0 ..< n_units]"

text \<open>Column \<open>c\<close> of a matrix given by its rows.\<close>

definition column :: "rat list list \<Rightarrow> nat \<Rightarrow> rat list" where
  "column m c = map (\<lambda>row. row ! c) m"

text \<open>
  \<^verbatim>\<open>compute_accuracies\<close>. Both \<^verbatim>\<open>np.argmax\<close> and \<^verbatim>\<open>np.max\<close> run along axis 0: they give one
  entry for each column of the confusion matrix, that is for each cluster, and raise
  ValueError on a matrix without rows. The result is the triple of \<^verbatim>\<open>unit_cluster_map\<close>,
  \<^verbatim>\<open>true_positive\<close> and \<^verbatim>\<open>false_positive\<close>.
\<close>

definition compute_accuracies ::
  "nat \<Rightarrow> rat list list \<Rightarrow> rat list \<Rightarrow> rat list
     \<Rightarrow> exn + (nat list \<times> rat option list \<times> rat option list)" where
  "compute_accuracies n_clusters confusion_matrix spike_count_base spike_count_cluster =
     (if confusion_matrix = [] then Inl ValueError
      else
      let unit_cluster_map = map (\<lambda>c. np_argmax (column confusion_matrix c)) [0 ..< n_clusters];
          recovered = map (\<lambda>c. Max (set (column confusion_matrix c))) [0 ..< n_clusters]
      in case np_divide recovered spike_count_base of
           Inl e \<Rightarrow> Inl e
         | Inr true_positive \<Rightarrow>
             (case np_take spike_count_cluster unit_cluster_map of
                Inl e \<Rightarrow> Inl e
              | Inr match_count \<Rightarrow>
                  (case np_divide (map2 (\<lambda>m r. m - r) match_count recovered) match_count of
                     Inl e \<Rightarrow> Inl e
                   | Inr false_positive \<Rightarrow>
                       Inr (unit_cluster_map, true_positive, false_positive))))"

record SpikeSortingEvaluation =
  sse_n_units :: nat
  sse_n_clusters :: nat
  sse_spt_base :: "spike list"
  sse_spt :: "spike list"
  sse_spike_count_base :: "rat list"
  sse_spike_count_cluster :: "rat list"
  sse_confusion_matrix :: "rat list list"
  sse_unit_cluster_map :: "nat list"
  sse_true_positive :: "rat option list"
  sse_false_positive :: "rat option list"

text \<open>
  The constructor, on the contents of two arrays that are not the same array. Every
  exception of a step leaves the constructor. \<^verbatim>\<open>count_spikes\<close> has raised already when
  the largest label plus one is negative, so the two counts are natural numbers where they
  are used.
\<close>

definition SpikeSortingEvaluation_init ::
  "spike list \<Rightarrow> spike list \<Rightarrow> exn + SpikeSortingEvaluation" where
  "SpikeSortingEvaluation_init spt_base0 spt0 =
     (let spt_base = clean_spike_train spt_base0;
          spt = clean_spike_train spt0
      in case np_max (map snd spt_base) of
           Inl e \<Rightarrow> Inl e
         | Inr mb \<Rightarrow>
        (case np_max (map snd spt) of
           Inl e \<Rightarrow> Inl e
         | Inr mc \<Rightarrow>
        (case count_spikes spt_base of
           Inl e \<Rightarrow> Inl e
         | Inr spike_count_base \<Rightarrow>
        (case count_spikes spt of
           Inl e \<Rightarrow> Inl e
         | Inr spike_count_cluster \<Rightarrow>
          (let n_units = nat (mb + 1);
               n_clusters = nat (mc + 1);
               confusion_matrix = compute_confusion_matrix n_units n_clusters spt_base spt
           in case compute_accuracies n_clusters confusion_matrix
                     spike_count_base spike_count_cluster of
                Inl e \<Rightarrow> Inl e
              | Inr (unit_cluster_map, true_positive, false_positive) \<Rightarrow>
                  Inr \<lparr> sse_n_units = n_units, sse_n_clusters = n_clusters,
                        sse_spt_base = spt_base, sse_spt = spt,
                        sse_spike_count_base = spike_count_base,
                        sse_spike_count_cluster = spike_count_cluster,
                        sse_confusion_matrix = confusion_matrix,
                        sse_unit_cluster_map = unit_cluster_map,
                        sse_true_positive = true_positive,
                        sse_false_positive = false_positive \<rparr>)))))"

section \<open>Properties of the normalisation\<close>

text \<open>The effect of the renumbering loop on one label.\<close>

fun relab :: "nat \<Rightarrow> int list \<Rightarrow> int \<Rightarrow> int" where
  "relab i [] l = l"
| "relab i (u # us) l = relab (Suc i) us (if l = u then int i else l)"

lemma relabel_map: "relabel i us spt = map (\<lambda>(t, l). (t, relab i us l)) spt"
proof (induction us arbitrary: i spt)
  case Nil
  show ?case by simp
next
  case (Cons u us)
  show ?case
    by (simp add: Cons.IH comp_def case_prod_beta)
qed

lemma relab_notin: "l \<notin> set us \<Longrightarrow> relab i us l = l"
  by (induction us arbitrary: i) auto

lemma relab_nth:
  assumes "distinct us" and "\<forall>u \<in> set us. int (i + length us) \<le> u" and "k < length us"
  shows "relab i us (us ! k) = int (i + k)"
  using assms
proof (induction us arbitrary: i k)
  case Nil
  then show ?case by simp
next
  case (Cons u us)
  show ?case
  proof (cases k)
    case 0
    have "int i \<notin> set us"
    proof
      assume "int i \<in> set us"
      with Cons.prems(2) have "int (i + length (u # us)) \<le> int i" by auto
      then show False by simp
    qed
    with 0 show ?thesis by (simp add: relab_notin)
  next
    case (Suc k')
    with Cons.prems have neq: "us ! k' \<noteq> u" and k': "k' < length us"
      by auto
    have "relab (Suc i) us (us ! k') = int (Suc i + k')"
      using Cons.prems k' by (intro Cons.IH) auto
    with Suc neq show ?thesis by simp
  qed
qed

lemma clean_spike_train_map:
  "clean_spike_train spt =
     map (\<lambda>(t, l). (t, relab 0 (map (\<lambda>u. u + int (length (np_unique (map snd spt))))
                                    (np_unique (map snd spt)))
                           (l + int (length (np_unique (map snd spt)))))) spt"
  by (simp add: clean_spike_train_def Let_def relabel_map comp_def case_prod_beta)

lemma np_unique_set: "set (np_unique xs) = set xs"
  by (simp add: np_unique_def)

lemma np_unique_distinct: "distinct (np_unique xs)"
  by (simp add: np_unique_def)

lemma np_unique_length: "length (np_unique xs) = card (set xs)"
  by (simp add: np_unique_def length_remdups_card_conv)

text \<open>
  With nonnegative labels, a label that sits at position \<open>k\<close> of the sorted distinct
  labels is renumbered to \<open>k\<close>.
\<close>

lemma clean_label_rank:
  assumes nonneg: "\<forall>l \<in> set ls. 0 \<le> l" and k: "k < length (np_unique ls)"
  shows "relab 0 (map (\<lambda>u. u + int (length (np_unique ls))) (np_unique ls))
           (np_unique ls ! k + int (length (np_unique ls))) = int k"
proof -
  let ?us = "np_unique ls"
  let ?n = "int (length ?us)"
  let ?us1 = "map (\<lambda>u. u + ?n) ?us"
  have d: "distinct ?us1"
    by (simp add: distinct_map np_unique_distinct inj_on_def)
  have ge: "\<forall>u \<in> set ?us1. int (0 + length ?us1) \<le> u"
    using nonneg by (auto simp: np_unique_set)
  have "relab 0 ?us1 (?us1 ! k) = int (0 + k)"
    using d ge k by (intro relab_nth) simp_all
  with k show ?thesis by simp
qed

lemma clean_spike_train_times: "map fst (clean_spike_train spt) = map fst spt"
  by (simp add: clean_spike_train_map comp_def case_prod_beta)


lemma clean_spike_train_label_set:
  assumes nonneg: "\<forall>s \<in> set spt. 0 \<le> snd s"
  shows "set (map snd (clean_spike_train spt)) = int ` {0 ..< card (set (map snd spt))}"
proof -
  let ?ls = "map snd spt"
  let ?us = "np_unique ?ls"
  let ?n = "int (length ?us)"
  let ?f = "\<lambda>l. relab 0 (map (\<lambda>u. u + ?n) ?us) (l + ?n)"
  have cl: "clean_spike_train spt = map (\<lambda>(t, l). (t, ?f l)) spt"
    by (rule clean_spike_train_map)
  have nn: "\<forall>l \<in> set ?ls. 0 \<le> l"
    using nonneg by auto
  have labels: "map snd (clean_spike_train spt) = map ?f ?ls"
    by (simp add: cl comp_def case_prod_beta)
  have rank: "?f (?us ! k) = int k" if "k < length ?us" for k
    using clean_label_rank [OF nn that] .
  have "set (map ?f ?ls) = int ` {0 ..< length ?us}"
  proof (intro equalityI subsetI)
    fix x assume "x \<in> set (map ?f ?ls)"
    then obtain l where l: "l \<in> set ?ls" and x: "x = ?f l" by auto
    from l have "l \<in> set ?us" by (simp only: np_unique_set)
    then obtain k where k: "k < length ?us" and lk: "?us ! k = l"
      by (auto simp: in_set_conv_nth)
    from rank [OF k] lk x have "x = int k" by simp
    with k show "x \<in> int ` {0 ..< length ?us}" by simp
  next
    fix x assume "x \<in> int ` {0 ..< length ?us}"
    then obtain k where k: "k < length ?us" and x: "x = int k" by auto
    from k have "?us ! k \<in> set ?us" by simp
    then have "?us ! k \<in> set ?ls" by (simp only: np_unique_set)
    then have "?f (?us ! k) \<in> ?f ` set ?ls" by (rule imageI)
    with rank [OF k] x show "x \<in> set (map ?f ?ls)" by (simp only: set_map)
  qed
  then show ?thesis
    by (simp only: labels np_unique_length)
qed

lemma clean_spike_train_same_label:
  "snd (spt ! i) = snd (spt ! j) \<Longrightarrow> i < length spt \<Longrightarrow> j < length spt
     \<Longrightarrow> snd (clean_spike_train spt ! i) = snd (clean_spike_train spt ! j)"
  by (simp add: clean_spike_train_map case_prod_beta)

text \<open>
  C8. For a spike train with nonnegative labels, the labels of the normalised train are
  exactly the range from 0 to U - 1, where U is the number of distinct labels of the input;
  the times are unchanged; and two rows that had the same label before have the same label
  after, so that every original label has exactly one normalised label.
\<close>

theorem clean_spike_train_contiguous:
  assumes nonneg: "\<forall>s \<in> set spt. 0 \<le> snd s"
  shows "map fst (clean_spike_train spt) = map fst spt
       \<and> set (map snd (clean_spike_train spt)) = int ` {0 ..< card (set (map snd spt))}
       \<and> (\<forall>i < length spt. \<forall>j < length spt.
            snd (spt ! i) = snd (spt ! j)
            \<longrightarrow> snd (clean_spike_train spt ! i) = snd (clean_spike_train spt ! j))"
proof (intro conjI allI impI)
  show "map fst (clean_spike_train spt) = map fst spt"
    by (rule clean_spike_train_times)
  show "set (map snd (clean_spike_train spt)) = int ` {0 ..< card (set (map snd spt))}"
    using nonneg by (rule clean_spike_train_label_set)
next
  fix i j
  assume "i < length spt" "j < length spt" "snd (spt ! i) = snd (spt ! j)"
  then show "snd (clean_spike_train spt ! i) = snd (clean_spike_train spt ! j)"
    by (intro clean_spike_train_same_label)
qed

theorem clean_spike_train_contiguous_witness:
  "map fst (clean_spike_train [(100, 5), (200, 7), (300, 5)]) = [100, 200, 300]
   \<and> set (map snd (clean_spike_train [(100, 5), (200, 7), (300, 5)])) = int ` {0 ..< 2}
   \<and> snd (clean_spike_train [(100, 5), (200, 7), (300, 5)] ! 0)
     = snd (clean_spike_train [(100, 5), (200, 7), (300, 5)] ! 2)"
proof -
  have h: "\<forall>s \<in> set [(100, 5), (200, 7), (300, 5 :: int)]. 0 \<le> snd s" by simp
  have c: "card (set (map snd [(100 :: int, 5 :: int), (200, 7), (300, 5)])) = 2"
    by code_simp
  from clean_spike_train_contiguous [OF h] c show ?thesis by simp
qed

text \<open>
  The hypothesis on the labels is needed: with negative labels a shifted label can be
  equal to a number that the loop has handed out already, and two units are merged.
\<close>

lemma clean_spike_train_negative_labels:
  "clean_spike_train [(1, -5), (2, -3), (3, 7)] = [(1, 1), (2, 1), (3, 2)]"
  by (simp add: clean_spike_train_def np_unique_def Let_def)

subsection \<open>The caller's array after the call\<close>

lemma fold_update_length:
  "length (fold (\<lambda>p buf. buf[p := f (buf ! p)]) rows buf) = length buf"
  by (induction rows arbitrary: buf) simp_all

lemma fold_update_nth:
  "distinct rows \<Longrightarrow> q < length buf \<Longrightarrow>
   fold (\<lambda>p buf. buf[p := f (buf ! p)]) rows buf ! q
     = (if q \<in> set rows then f (buf ! q) else buf ! q)"
proof (induction rows arbitrary: buf)
  case Nil
  show ?case by simp
next
  case (Cons p rows)
  from Cons.prems have d: "distinct rows" and p: "p \<notin> set rows" by simp_all
  have q: "q < length (buf[p := f (buf ! p)])" using Cons.prems(2) by simp
  have neq: "q \<noteq> p" if "q \<in> set rows"
    using that p by auto
  show ?case
  proof (cases "q \<in> set rows")
    case True
    with Cons.IH [OF d q] neq [OF True] show ?thesis by simp
  next
    case False
    with Cons.IH [OF d q] Cons.prems(2) show ?thesis by (simp add: nth_list_update)
  qed
qed

lemma write_rows_length: "length (write_rows f a h b) = length (h b)"
  by (simp add: write_rows_def fold_update_length)

lemma write_rows_well_formed: "well_formed h a \<Longrightarrow> well_formed (write_rows f a h) a"
  by (simp add: well_formed_def write_rows_length)

lemma write_rows_contents:
  assumes "well_formed h a"
  shows "nd_contents (write_rows f a h) a = map f (nd_contents h a)"
proof -
  have "fold (\<lambda>p buf. buf[p := f (buf ! p)]) (nd_rows a) (h (nd_base a)) ! p = f (h (nd_base a) ! p)"
    if "p \<in> set (nd_rows a)" for p
    using assms that by (simp add: well_formed_def list_all_iff fold_update_nth)
  then show ?thesis
    by (simp add: nd_contents_def write_rows_def)
qed

lemma write_rows_other_buffer: "b \<noteq> nd_base a \<Longrightarrow> write_rows f a h b = h b"
  by (simp add: write_rows_def)

lemma write_rows_outside:
  "distinct (nd_rows a) \<Longrightarrow> p \<notin> set (nd_rows a) \<Longrightarrow> p < length (h (nd_base a)) \<Longrightarrow>
   write_rows f a h (nd_base a) ! p = h (nd_base a) ! p"
  by (simp add: write_rows_def fold_update_nth)

lemma relabel_store_length: "length (relabel_store i us a h b) = length (h b)"
  by (induction us arbitrary: i h) (simp_all add: write_rows_length)

lemma relabel_store_contents:
  "well_formed h a \<Longrightarrow> nd_contents (relabel_store i us a h) a = relabel i us (nd_contents h a)"
  by (induction us arbitrary: i h) (simp_all add: write_rows_contents write_rows_well_formed)

lemma relabel_store_other_buffer: "b \<noteq> nd_base a \<Longrightarrow> relabel_store i us a h b = h b"
  by (induction us arbitrary: i h) (simp_all add: write_rows_other_buffer)

lemma relabel_store_outside:
  "distinct (nd_rows a) \<Longrightarrow> p \<notin> set (nd_rows a) \<Longrightarrow> p < length (h (nd_base a)) \<Longrightarrow>
   relabel_store i us a h (nd_base a) ! p = h (nd_base a) ! p"
  by (induction us arbitrary: i h) (simp_all add: write_rows_outside write_rows_length)

lemma clean_spike_train_inplace_contents:
  assumes "well_formed h a"
  shows "nd_contents (snd (clean_spike_train_inplace a h)) a = clean_spike_train (nd_contents h a)"
  using assms
  by (simp add: clean_spike_train_inplace_def clean_spike_train_def Let_def
      relabel_store_contents write_rows_contents write_rows_well_formed)

lemma clean_spike_train_inplace_outside:
  assumes "distinct (nd_rows a)" and "p \<notin> set (nd_rows a)" and "p < length (h (nd_base a))"
  shows "snd (clean_spike_train_inplace a h) (nd_base a) ! p = h (nd_base a) ! p"
  using assms
  by (simp add: clean_spike_train_inplace_def Let_def relabel_store_outside write_rows_outside
      write_rows_length)

text \<open>
  C9, as stated, fails: the array of the caller does not keep its labels. After the call on
  the array of the three rows of the buffer, whose labels are 5, 7 and 5, that array holds
  the labels 0, 1 and 0.
\<close>

theorem clean_spike_train_mutates_argument:
  "nd_contents (snd (clean_spike_train_inplace whole_array caller_store)) whole_array
     = [(100, 0), (200, 1), (300, 0)]
   \<and> nd_contents (snd (clean_spike_train_inplace whole_array caller_store)) whole_array
     \<noteq> nd_contents caller_store whole_array"
proof -
  have wf: "well_formed caller_store whole_array"
    by (simp add: well_formed_def whole_array_def caller_store_def)
  have before: "nd_contents caller_store whole_array = [(100, 5), (200, 7), (300, 5)]"
    by (simp add: nd_contents_def whole_array_def caller_store_def)
  have "clean_spike_train [(100, 5), (200, 7), (300, 5)] = [(100, 0), (200, 1), (300, 0)]"
    by (simp add: clean_spike_train_def np_unique_def Let_def)
  then show ?thesis
    by (simp add: clean_spike_train_inplace_contents [OF wf] before)
qed

text \<open>
  C9, amended. The call normalises in place the array it is given, an array of distinct
  rows of its buffer, and returns this same array. After the call the array shows the
  normalised train computed from the rows it showed before the call, with the same times;
  the rows are written into the buffer of the array, so every array that shares a row with
  the argument shows the new label in that row; the rows of the buffer that are not rows
  of the argument, the size of the buffer and every other buffer are unchanged.
\<close>

theorem clean_spike_train_inplace_effect:
  assumes "well_formed h a"
  shows "fst (clean_spike_train_inplace a h) = a
   \<and> nd_contents (snd (clean_spike_train_inplace a h)) a = clean_spike_train (nd_contents h a)
   \<and> map fst (nd_contents (snd (clean_spike_train_inplace a h)) a) = map fst (nd_contents h a)
   \<and> (\<forall>v j k. nd_base v = nd_base a \<and> j < length (nd_rows v) \<and> k < length (nd_rows a)
          \<and> nd_rows v ! j = nd_rows a ! k
        \<longrightarrow> nd_contents (snd (clean_spike_train_inplace a h)) v ! j
              = clean_spike_train (nd_contents h a) ! k)
   \<and> (\<forall>v j. nd_base v = nd_base a \<and> j < length (nd_rows v)
          \<and> nd_rows v ! j \<notin> set (nd_rows a) \<and> nd_rows v ! j < length (h (nd_base a))
        \<longrightarrow> nd_contents (snd (clean_spike_train_inplace a h)) v ! j = nd_contents h v ! j)
   \<and> length (snd (clean_spike_train_inplace a h) (nd_base a)) = length (h (nd_base a))
   \<and> (\<forall>b. b \<noteq> nd_base a \<longrightarrow> snd (clean_spike_train_inplace a h) b = h b)"
proof -
  let ?h = "snd (clean_spike_train_inplace a h)"
  have d: "distinct (nd_rows a)"
    using assms by (simp add: well_formed_def)
  have ret: "fst (clean_spike_train_inplace a h) = a"
    by (simp add: clean_spike_train_inplace_def Let_def)
  have own: "nd_contents ?h a = clean_spike_train (nd_contents h a)"
    using assms by (rule clean_spike_train_inplace_contents)
  have times: "map fst (nd_contents ?h a) = map fst (nd_contents h a)"
    by (simp only: own clean_spike_train_times)
  have shared: "nd_contents ?h v ! j = clean_spike_train (nd_contents h a) ! k"
    if "nd_base v = nd_base a" "j < length (nd_rows v)" "k < length (nd_rows a)"
      "nd_rows v ! j = nd_rows a ! k" for v j k
  proof -
    have "nd_contents ?h v ! j = ?h (nd_base a) ! (nd_rows a ! k)"
      using that by (simp add: nd_contents_def)
    also have "\<dots> = nd_contents ?h a ! k"
      using that(3) by (simp add: nd_contents_def)
    finally show ?thesis by (simp only: own)
  qed
  have outside: "nd_contents ?h v ! j = nd_contents h v ! j"
    if "nd_base v = nd_base a" "j < length (nd_rows v)" "nd_rows v ! j \<notin> set (nd_rows a)"
      "nd_rows v ! j < length (h (nd_base a))" for v j
    using that clean_spike_train_inplace_outside [where a = a and h = h, OF d that(3) that(4)]
    by (simp add: nd_contents_def)
  have len: "length (?h (nd_base a)) = length (h (nd_base a))"
    by (simp add: clean_spike_train_inplace_def Let_def relabel_store_length write_rows_length)
  have other: "?h b = h b" if "b \<noteq> nd_base a" for b
    using that
    by (simp add: clean_spike_train_inplace_def Let_def relabel_store_other_buffer
        write_rows_other_buffer)
  from ret own times shared outside len other show ?thesis
    by blast
qed

text \<open>
  The call on the slice of the last two rows: the slice shows the labels 1 and 0, the array
  of all three rows shows them too in its last two rows and keeps its first row, and the
  buffer at address 1 is as before.
\<close>

theorem clean_spike_train_inplace_effect_witness:
  "fst (clean_spike_train_inplace tail_array caller_store) = tail_array
   \<and> nd_contents (snd (clean_spike_train_inplace tail_array caller_store)) tail_array
     = [(200, 1), (300, 0)]
   \<and> nd_contents (snd (clean_spike_train_inplace tail_array caller_store)) whole_array ! 1
     = (200, 1)
   \<and> nd_contents (snd (clean_spike_train_inplace tail_array caller_store)) whole_array ! 0
     = (100, 5)
   \<and> snd (clean_spike_train_inplace tail_array caller_store) 1 = caller_store 1"
proof -
  have wf: "well_formed caller_store tail_array"
    by (simp add: well_formed_def tail_array_def caller_store_def)
  have before: "nd_contents caller_store tail_array = [(200, 7), (300, 5)]"
    by (simp add: nd_contents_def tail_array_def caller_store_def)
  have clean: "clean_spike_train [(200, 7), (300, 5)] = [(200, 1), (300, 0)]"
    by (simp add: clean_spike_train_def np_unique_def Let_def)
  have first: "nd_contents caller_store whole_array ! 0 = (100, 5)"
    by (simp add: nd_contents_def whole_array_def caller_store_def)
  note eff = clean_spike_train_inplace_effect [OF wf, unfolded before clean]
  have 1: "fst (clean_spike_train_inplace tail_array caller_store) = tail_array"
    and 2: "nd_contents (snd (clean_spike_train_inplace tail_array caller_store)) tail_array
      = [(200, 1), (300, 0)]"
    using eff by blast+
  have "nd_base whole_array = nd_base tail_array \<and> 1 < length (nd_rows whole_array)
      \<and> 0 < length (nd_rows tail_array) \<and> nd_rows whole_array ! 1 = nd_rows tail_array ! 0"
    by (simp add: whole_array_def tail_array_def)
  with eff have "nd_contents (snd (clean_spike_train_inplace tail_array caller_store))
      whole_array ! 1 = [(200, 1), (300, 0)] ! 0"
    by blast
  then have 3: "nd_contents (snd (clean_spike_train_inplace tail_array caller_store))
      whole_array ! 1 = (200, 1)"
    by simp
  have "nd_base whole_array = nd_base tail_array \<and> 0 < length (nd_rows whole_array)
      \<and> nd_rows whole_array ! 0 \<notin> set (nd_rows tail_array)
      \<and> nd_rows whole_array ! 0 < length (caller_store (nd_base tail_array))"
    by (simp add: whole_array_def tail_array_def caller_store_def)
  with eff have "nd_contents (snd (clean_spike_train_inplace tail_array caller_store))
      whole_array ! 0 = nd_contents caller_store whole_array ! 0"
    by blast
  with first have 4: "nd_contents (snd (clean_spike_train_inplace tail_array caller_store))
      whole_array ! 0 = (100, 5)"
    by simp
  have "(1 :: nat) \<noteq> nd_base tail_array"
    by (simp add: tail_array_def)
  with eff have 5: "snd (clean_spike_train_inplace tail_array caller_store) 1 = caller_store 1"
    by blast
  from 1 2 3 4 5 show ?thesis by blast
qed

section \<open>Properties of the template computation\<close>

text \<open>
  A spike whose window reaches the end of the batch or goes beyond it (the last index
  \<open>t + 29\<close> is not a row of the batch) is counted as a violation, and the templates and
  the counts stay as they are.
\<close>

lemma add_snippet_past_end:
  assumes "int (length ts) \<le> fst s + 29"
  shows "add_snippet [-10 .. 29] ts s st = st\<lparr>acc_boundary_violation := acc_boundary_violation st + 1\<rparr>"
proof -
  have "np_index (length ts) (fst s + 29) = None"
    using assms by (simp add: np_index_def)
  moreover have "fst s + 29 \<in> set (map (\<lambda>k. fst s + k) [-10 .. 29])"
    unfolding set_map set_upto by simp
  ultimately have "\<not> list_all (\<lambda>i. np_index (length ts) i \<noteq> None)
      (map (\<lambda>k. fst s + k) [-10 .. 29])"
    unfolding list_all_iff by blast
  then have "np_take_rows ts (map (\<lambda>k. fst s + k) [-10 .. 29]) = Inl IndexError"
    by (simp only: np_take_rows_def if_False)
  then show ?thesis
    by (simp add: add_snippet_def split: option.splits)
qed

text \<open>
  A spike whose window starts before the batch (a local time from 1 to 9) and ends inside
  it is not counted: the negative indices are read from the end of the batch, the snippet
  is added to the template of the unit and the count of the unit goes up by one.
\<close>

lemma add_snippet_before_start:
  assumes t: "0 < fst s" "fst s < 10" "fst s + 29 < int (length ts)"
    and u: "0 \<le> snd s" "snd s < int (length (acc_templates st))"
  shows "add_snippet [-10 .. 29] ts s st =
           st\<lparr>acc_templates := (acc_templates st)[nat (snd s) :=
                  mat_add (acc_templates st ! nat (snd s))
                    (map (\<lambda>i. ts ! the (np_index (length ts) i))
                       (map (\<lambda>k. fst s + k) [-10 .. 29]))],
              acc_counts := (acc_counts st)[nat (snd s) := acc_counts st ! nat (snd s) + 1]\<rparr>"
proof -
  have valid: "np_index (length ts) i \<noteq> None" if "fst s - 10 \<le> i" "i \<le> 29 + fst s" for i
    using that t by (auto simp: np_index_def)
  have "\<forall>i \<in> set (map (\<lambda>k. fst s + k) [-10 .. 29]). np_index (length ts) i \<noteq> None"
    unfolding set_map set_upto using valid by auto
  then have "list_all (\<lambda>i. np_index (length ts) i \<noteq> None) (map (\<lambda>k. fst s + k) [-10 .. 29])"
    by (simp only: list_all_iff)
  then have rows: "np_take_rows ts (map (\<lambda>k. fst s + k) [-10 .. 29])
      = Inr (map (\<lambda>i. ts ! the (np_index (length ts) i)) (map (\<lambda>k. fst s + k) [-10 .. 29]))"
    by (simp only: np_take_rows_def if_True)
  have unit: "np_index (length (acc_templates st)) (snd s) = Some (nat (snd s))"
    using u by (simp add: np_index_def)
  show ?thesis
    unfolding add_snippet_def rows unit by simp
qed

text \<open>
  C4 does not hold of the code for a window that starts before the batch. The train has
  the single spike (5, 0); its window covers the local times -5 to 34 of the first batch.
  The constructor reports no boundary violation, and the template of the unit is made of
  the samples 45 to 49 and 0 to 34 of the batch.
\<close>

theorem window_before_batch_start_not_counted:
  "map_sum id (\<lambda>r. (mwc_templates (fst r), snd r)) (MeanWaveCalculator_init ramp_reader [(5, 0)])
     = Inr ([map (\<lambda>i. [of_nat i]) ([45 ..< 50] @ [0 ..< 35])], 0)"
  by code_simp

text \<open>The calculator of the small recording is the one the constructor builds.\<close>

lemma flat_calculator_built:
  "MeanWaveCalculator_init flat_reader [(20, 4), (120, 4), (70, 9)] = Inr (flat_calculator, 0)"
  by code_simp

section \<open>Properties of the augmentation\<close>

subsection \<open>The statistics of a unit with one spike\<close>

lemma unit_stat_single:
  assumes "length (times_of spt (int u)) = 1"
  shows "unit_stat spt u = (None, None, 1)"
proof -
  have "length (sort (times_of spt (int u))) = 1"
    using assms by simp
  then obtain x where "sort (times_of spt (int u)) = [x]"
    by (cases "sort (times_of spt (int u))") auto
  then show ?thesis
    by (simp add: unit_stat_def np_mean_def np_std_def Let_def)
qed

text \<open>
  A unit with a single spike gets the row (nan, nan, 1), whatever the other units are: the
  guard does not look at the unit.
\<close>

lemma compute_stat_summary_single:
  assumes "length (times_of spt (int u)) = 1" and "u < n_units"
  shows "compute_stat_summary n_units spt ! u = (None, None, 1)"
proof -
  from assms(1) have "spt \<noteq> []"
    by (auto simp: times_of_def)
  with assms(2) show ?thesis
    by (simp add: compute_stat_summary_def unit_stat_single [OF assms(1)])
qed

text \<open>
  C5 does not hold of the code. In the small recording unit 1 has one spike, so no
  difference of consecutive spike times; its row of the summary is (nan, nan, 1) and not
  the row of zeros.
\<close>

theorem stat_summary_single_spike_unit:
  "aug_stat_summary (RecordingAugmentation_init flat_calculator) ! 1 = (None, None, 1)
   \<and> aug_stat_summary (RecordingAugmentation_init flat_calculator) ! 1 \<noteq> (Some 0, Some 0, 0)"
proof -
  have "length (times_of (mwc_spike_train flat_calculator) (int 1)) = 1"
    by (simp add: flat_calculator_def times_of_def)
  moreover have "1 < mwc_n_units flat_calculator"
    by (simp add: flat_calculator_def)
  ultimately have "compute_stat_summary (mwc_n_units flat_calculator)
      (mwc_spike_train flat_calculator) ! 1 = (None, None, 1)"
    by (rule compute_stat_summary_single)
  then show ?thesis
    by (simp add: RecordingAugmentation_init_def)
qed

subsection \<open>The new spike times\<close>

lemma unit_fake_times_length:
  "length chosen = length sampled \<Longrightarrow> length (unit_fake_times chosen sampled) = length sampled"
  by (simp add: unit_fake_times_def Let_def)

lemma unit_fake_times_nth:
  "length chosen = length sampled \<Longrightarrow> k < length sampled \<Longrightarrow>
   unit_fake_times chosen sampled ! k
     = sort chosen ! k
       + (if sampled ! k < refractory_period then sampled ! k + refractory_period
          else sampled ! k)"
  by (simp add: unit_fake_times_def Let_def)

text \<open>The rows of one unit in a concatenation of trains that carry one label each.\<close>

lemma times_of_labelled:
  "times_of (map (\<lambda>t. (t, l)) ts) l' = (if l = l' then ts else [])"
  by (induction ts) (auto simp: times_of_def)

lemma times_of_concat:
  "times_of (concat (map (\<lambda>v. map (\<lambda>t. (t, int v)) (f v)) vs)) (int u)
     = concat (map (\<lambda>v. if v = u then f v else []) vs)"
proof (induction vs)
  case Nil
  show ?case by (simp add: times_of_def)
next
  case (Cons v vs)
  have "times_of (xs @ ys) l = times_of xs l @ times_of ys l" for xs ys l
    by (simp add: times_of_def)
  then show ?case
    using Cons.IH by (simp add: times_of_labelled)
qed

lemma concat_single_upt:
  "u < n \<Longrightarrow> concat (map (\<lambda>v. if v = u then f v else []) [0 ..< n]) = f u"
proof (induction n)
  case 0
  then show ?case by simp
next
  case (Suc n)
  show ?case
  proof (cases "u = n")
    case True
    have "concat (map (\<lambda>v. if v = u then f v else []) [0 ..< n]) = []"
      using True by (auto simp: concat_eq_Nil_conv)
    with True show ?thesis by simp
  next
    case False
    with Suc.prems have "u < n" by simp
    with Suc.IH False show ?thesis by simp
  qed
qed

lemma make_fake_spike_train_times:
  assumes "u < mwc_n_units (aug_template_comp self)"
  shows "times_of (make_fake_spike_train self augment_rate choice normal) (int u)
     = unit_fake_times
         (choice u (sort (times_of (mwc_spike_train (aug_template_comp self)) (int u)))
            (nat \<lfloor>snd (snd (aug_stat_summary self ! u)) * augment_rate\<rfloor>))
         (normal u (nat \<lfloor>snd (snd (aug_stat_summary self ! u)) * augment_rate\<rfloor>))"
  unfolding make_fake_spike_train_def Let_def
  by (simp only: times_of_concat concat_single_upt [OF assms])

text \<open>
  C7, as stated, fails: with the anchors 100 and 200 and the sampled differences 70 and 80,
  the second new time is 200 + 80 = 280, not 200 plus the sum 150 of the first two
  differences.
\<close>

theorem fake_times_not_cumulative:
  "unit_fake_times [200, 100] [70, 80] ! 1 = 280
   \<and> unit_fake_times [200, 100] [70, 80] ! 1 \<noteq> sort [200, 100] ! 1 + sum_list (take 2 [70, 80])"
  by (simp add: unit_fake_times_def refractory_period_def)

text \<open>
  C7, amended. For each unit \<open>u\<close>, when the two draws have the required number \<open>k\<close> of
  entries, the train returned holds \<open>k\<close> new times of the unit, and the \<open>j\<close>-th of them is the
  \<open>j\<close>-th of the sorted anchors plus the \<open>j\<close>-th sampled difference alone, which is raised by the
  refractory period when it is below it.
\<close>

theorem make_fake_spike_train_anchor_plus_gap:
  assumes "u < mwc_n_units (aug_template_comp self)"
    and "k = nat \<lfloor>snd (snd (aug_stat_summary self ! u)) * augment_rate\<rfloor>"
    and "chosen = choice u (sort (times_of (mwc_spike_train (aug_template_comp self)) (int u))) k"
    and "sampled = normal u k"
    and "length chosen = k" and "length sampled = k"
  shows "length (times_of (make_fake_spike_train self augment_rate choice normal) (int u)) = k
       \<and> (\<forall>j < k. times_of (make_fake_spike_train self augment_rate choice normal) (int u) ! j
             = sort chosen ! j
               + (if sampled ! j < refractory_period then sampled ! j + refractory_period
                  else sampled ! j))"
proof -
  have eq: "times_of (make_fake_spike_train self augment_rate choice normal) (int u)
      = unit_fake_times chosen sampled"
    unfolding assms(2,3,4) by (rule make_fake_spike_train_times [OF assms(1)])
  have len: "length chosen = length sampled"
    using assms(5,6) by simp
  show ?thesis
    unfolding eq
    using unit_fake_times_length [OF len] unit_fake_times_nth [OF len] assms(6)
    by simp
qed

theorem make_fake_spike_train_anchor_plus_gap_witness:
  "length (times_of (make_fake_spike_train (RecordingAugmentation_init flat_calculator) 1
                       first_choice fixed_normal) (int 0)) = 2
   \<and> times_of (make_fake_spike_train (RecordingAugmentation_init flat_calculator) 1
                 first_choice fixed_normal) (int 0) ! 1 = 120 + 80"
proof -
  let ?self = "RecordingAugmentation_init flat_calculator"
  have u: "0 < mwc_n_units (aug_template_comp ?self)"
    by (simp add: RecordingAugmentation_init_def flat_calculator_def)
  have times: "sort (times_of (mwc_spike_train (aug_template_comp ?self)) (int 0)) = [20, 120]"
    by (simp add: RecordingAugmentation_init_def flat_calculator_def times_of_def)
  have "snd (snd (aug_stat_summary ?self ! 0)) = 2"
    by (simp add: RecordingAugmentation_init_def flat_calculator_def compute_stat_summary_def
        unit_stat_def times_of_def Let_def eval_nat_numeral)
  then have k: "2 = nat \<lfloor>snd (snd (aug_stat_summary ?self ! 0)) * 1\<rfloor>"
    by simp
  have c: "[20, 120] = first_choice 0
      (sort (times_of (mwc_spike_train (aug_template_comp ?self)) (int 0))) 2"
    unfolding times by (simp add: first_choice_def)
  have s: "[70, 80] = fixed_normal 0 2"
    by (simp add: fixed_normal_def eval_nat_numeral)
  have l1: "length [20, 120 :: int] = 2" and l2: "length [70, 80 :: int] = 2"
    by simp_all
  from make_fake_spike_train_anchor_plus_gap
    [where u = 0 and self = ?self and k = 2 and augment_rate = 1 and chosen = "[20, 120]"
       and choice = first_choice and sampled = "[70, 80]" and normal = fixed_normal,
     OF u k c s l1 l2]
  show ?thesis
    by (simp add: refractory_period_def)
qed

subsection \<open>The injection of the templates\<close>

text \<open>
  On an object without the attribute \<^verbatim>\<open>window\<close> every spike leaves the batch as it is and
  adds one to the counter; the object of the constructor is such an object.
\<close>

lemma add_template_without_window:
  "aug_window self = None \<Longrightarrow>
   add_template self moved moved_templates s acc = (fst acc, snd acc + 1)"
  by (simp add: add_template_def Let_def split: option.splits)

lemma fold_add_template_without_window:
  "aug_window self = None \<Longrightarrow>
   fold (add_template self moved moved_templates) spikes (ts, bv) = (ts, bv + length spikes)"
  by (induction spikes arbitrary: bv) (simp_all add: add_template_without_window)

lemma init_without_window: "aug_window (RecordingAugmentation_init m) = None"
  by (simp add: RecordingAugmentation_init_def)

lemma long_calculator_built:
  "MeanWaveCalculator_init long_reader
     [(20, 4), (110, 4), (230, 4), (320, 4), (70, 9), (160, 9), (260, 9), (350, 9)]
   = Inr (long_calculator, 0)"
  by code_simp

text \<open>
  The augmented train of the longer recording at the default rate, when the anchor drawn
  for each unit is its first spike and the sampled differences are 85 and 95: one new spike
  for each unit, at 20 + 85 and at 70 + 95.
\<close>

lemma long_fake_spike_train:
  "make_fake_spike_train (RecordingAugmentation_init long_calculator) (1 / 4)
     first_choice near_normal = [(105, 0), (165, 1)]"
proof -
  let ?self = "RecordingAugmentation_init long_calculator"
  have upt: "[0 ..< 2] = [0, Suc 0]"
    by code_simp
  have n_units: "mwc_n_units (aug_template_comp ?self) = 2"
    by (simp add: RecordingAugmentation_init_def long_calculator_def)
  have t0: "sort (times_of (mwc_spike_train (aug_template_comp ?self)) 0)
      = [20, 110, 230, 320]"
    by (simp add: RecordingAugmentation_init_def long_calculator_def times_of_def)
  have t1: "sort (times_of (mwc_spike_train (aug_template_comp ?self)) 1)
      = [70, 160, 260, 350]"
    by (simp add: RecordingAugmentation_init_def long_calculator_def times_of_def)
  have c0: "snd (snd (aug_stat_summary ?self ! 0)) = 4"
    by (simp add: RecordingAugmentation_init_def long_calculator_def compute_stat_summary_def
        unit_stat_def times_of_def Let_def upt)
  have c1: "snd (snd (aug_stat_summary ?self ! Suc 0)) = 4"
    by (simp add: RecordingAugmentation_init_def long_calculator_def compute_stat_summary_def
        unit_stat_def times_of_def Let_def upt)
  have one: "[0 ..< Suc 0] = [0]"
    by simp
  show ?thesis
    unfolding make_fake_spike_train_def Let_def n_units upt
    by (simp add: t0 t1 c0 c1 first_choice_def near_normal_def unit_fake_times_def
        refractory_period_def one)
qed

text \<open>
  C1 does not hold of the code. The object is the one that the constructor builds from the
  calculator of the longer recording; the call has the default rates, so no unit is drawn
  to be moved, and the augmented train is (105, 0), (165, 1). The windows of the two spikes,
  the local times 95 to 134 and 155 to 194 of the first batch, lie inside the batch, and
  with the templates of ones added these samples would be written as 2000. The call
  writes the batch as it was read, scaled: every sample is 1000, and the two spikes are
  counted as violations.
\<close>

theorem augmented_spike_not_injected:
  "save_augment_recording (RecordingAugmentation_init long_calculator) 1 (1 / 5) 1000
     last_units spatial first_choice near_normal
     = Inr ([(20, 0), (110, 0), (230, 0), (320, 0), (70, 1), (160, 1), (260, 1), (350, 1),
             (105, 0), (165, 1)],
            [replicate 200 [Some 1000, Some 1000]],
            2,
            long_reader\<lparr>rbi_cursor := 1\<rparr>)"
proof -
  let ?self = "RecordingAugmentation_init long_calculator"
  have comp: "aug_template_comp ?self = long_calculator"
    by (simp add: RecordingAugmentation_init_def)
  have reader: "reset_cursor (mwc_batch_reader long_calculator) = long_reader\<lparr>rbi_cursor := 0\<rparr>"
    by (simp add: long_calculator_def reset_cursor_def)
  have n_samples: "rbi_batch_time_samples (long_reader\<lparr>rbi_cursor := 0\<rparr>) = 200"
    by (simp add: long_reader_def)
  have n_units: "mwc_n_units long_calculator = 2"
    by (simp add: long_calculator_def)
  have train: "mwc_spike_train long_calculator
      = [(20, 0), (110, 0), (230, 0), (320, 0), (70, 1), (160, 1), (260, 1), (350, 1)]"
    by (simp add: long_calculator_def)
  have fake: "make_fake_spike_train ?self (1 / 4) first_choice near_normal = [(105, 0), (165, 1)]"
    by (rule long_fake_spike_train)
  have spikes: "batch_spikes 200 0 [(105, 0), (165, 1)] = [(105, 0), (165, 1)]"
    by code_simp
  have labels: "reassign_moved [0, 0] [0 ..< 2] 2 [(105, 0), (165, 1)] = [(105, 0), (165, 1)]"
    by code_simp
  have batch: "next_batch (long_reader\<lparr>rbi_cursor := 0\<rparr>)
      = Inr (replicate 200 [1, 1], long_reader\<lparr>rbi_cursor := 1\<rparr>)"
    by (simp add: next_batch_def long_reader_def)
  have written: "astype_int16 1000 = Some 1000"
    by (simp add: astype_int16_def)
  have loop: "augment_loop ?self [0, 0] mt 1000 200 [(105, 0), (165, 1)] [0 ..< 1]
      (long_reader\<lparr>rbi_cursor := 0\<rparr>) [] 0
      = Inr (long_reader\<lparr>rbi_cursor := 1\<rparr>, [replicate 200 [Some 1000, Some 1000]], 2)" for mt
    by (simp add: batch spikes written add_template_without_window [OF init_without_window])
  have units: "sort (last_units 2 (nat \<lfloor>(1 / 5 :: rat) * of_nat 2\<rfloor>)) = []"
    by (simp add: last_units_def)
  have moved: "mark_moved 2 [] = [0, 0]"
    by code_simp
  show ?thesis
    unfolding save_augment_recording_def Let_def comp reader n_samples n_units train fake
      units moved loop
    by (simp add: labels)
qed

subsection \<open>The labels of the moved units\<close>

lemma fold_mark_other:
  "u \<notin> snd ` set ps \<Longrightarrow> fold (\<lambda>(i, u) moved. moved[u := i]) ps moved ! u = moved ! u"
  by (induction ps arbitrary: moved) (auto simp: case_prod_beta)

text \<open>The first of the units drawn has the entry 0 in \<^verbatim>\<open>moved\<close>, as a unit that is not moved.\<close>

lemma mark_moved_first:
  assumes "distinct (u # us)" and "u < n_units"
  shows "mark_moved n_units (u # us) ! u = 0"
proof -
  have "u \<notin> snd ` set (enumerate 1 us)"
    using assms(1) by (auto simp: in_set_enumerate_eq)
  then show ?thesis
    using assms(2) by (simp add: mark_moved_def fold_mark_other)
qed

text \<open>The last loop leaves the rows of a unit with the entry 0 as they are.\<close>

lemma reassign_moved_keeps:
  "moved ! u = 0 \<Longrightarrow> int u < new_unit_id \<Longrightarrow>
   filter (\<lambda>s. snd s = int u) (reassign_moved moved us new_unit_id aug_spt)
     = filter (\<lambda>s. snd s = int u) aug_spt"
proof (induction us arbitrary: new_unit_id aug_spt)
  case Nil
  show ?case by simp
next
  case (Cons v us)
  show ?case
  proof (cases "moved ! v \<noteq> 0")
    case True
    with Cons.prems(1) have vu: "v \<noteq> u" by auto
    let ?spt = "map (\<lambda>(t, l). if l = int v then (t, new_unit_id) else (t, l)) aug_spt"
    have "filter (\<lambda>s. snd s = int u) ?spt = filter (\<lambda>s. snd s = int u) aug_spt"
      using vu Cons.prems(2) by (induction aug_spt) (auto split: if_splits)
    moreover have "filter (\<lambda>s. snd s = int u) (reassign_moved moved us (new_unit_id + 1) ?spt)
        = filter (\<lambda>s. snd s = int u) ?spt"
      using Cons.prems by (intro Cons.IH) auto
    ultimately show ?thesis using True by simp
  next
    case False
    then show ?thesis using Cons.IH [OF Cons.prems] by simp
  qed
qed

text \<open>
  C6 does not hold of the code. The object and the draws are those of the longer recording,
  and the call has the move rate 0.5, so one of the two units is drawn to be moved: unit 1.
  Its augmented spike (165, 1) comes back with the label 1, not with the new label 2.
\<close>

theorem first_moved_unit_not_relabelled:
  "map_sum id fst
     (save_augment_recording (RecordingAugmentation_init long_calculator) 1 (1 / 2) 1000
        last_units spatial first_choice near_normal)
     = Inr [(20, 0), (110, 0), (230, 0), (320, 0), (70, 1), (160, 1), (260, 1), (350, 1),
            (105, 0), (165, 1)]"
proof -
  let ?self = "RecordingAugmentation_init long_calculator"
  have comp: "aug_template_comp ?self = long_calculator"
    by (simp add: RecordingAugmentation_init_def)
  have reader: "reset_cursor (mwc_batch_reader long_calculator) = long_reader\<lparr>rbi_cursor := 0\<rparr>"
    by (simp add: long_calculator_def reset_cursor_def)
  have n_samples: "rbi_batch_time_samples (long_reader\<lparr>rbi_cursor := 0\<rparr>) = 200"
    by (simp add: long_reader_def)
  have n_units: "mwc_n_units long_calculator = 2"
    by (simp add: long_calculator_def)
  have train: "mwc_spike_train long_calculator
      = [(20, 0), (110, 0), (230, 0), (320, 0), (70, 1), (160, 1), (260, 1), (350, 1)]"
    by (simp add: long_calculator_def)
  have fake: "make_fake_spike_train ?self (1 / 4) first_choice near_normal = [(105, 0), (165, 1)]"
    by (rule long_fake_spike_train)
  have spikes: "batch_spikes 200 0 [(105, 0), (165, 1)] = [(105, 0), (165, 1)]"
    by code_simp
  have labels: "reassign_moved [0, 0] [0 ..< 2] 2 [(105, 0), (165, 1)] = [(105, 0), (165, 1)]"
    by code_simp
  have batch: "next_batch (long_reader\<lparr>rbi_cursor := 0\<rparr>)
      = Inr (replicate 200 [1, 1], long_reader\<lparr>rbi_cursor := 1\<rparr>)"
    by (simp add: next_batch_def long_reader_def)
  have written: "astype_int16 1000 = Some 1000"
    by (simp add: astype_int16_def)
  have loop: "augment_loop ?self [0, 0] mt 1000 200 [(105, 0), (165, 1)] [0 ..< 1]
      (long_reader\<lparr>rbi_cursor := 0\<rparr>) [] 0
      = Inr (long_reader\<lparr>rbi_cursor := 1\<rparr>, [replicate 200 [Some 1000, Some 1000]], 2)" for mt
    by (simp add: batch spikes written add_template_without_window [OF init_without_window])
  have "nat \<lfloor>(1 / 2 :: rat) * of_nat 2\<rfloor> = 1"
    by simp
  moreover have "last_units 2 1 = [1]"
    by code_simp
  ultimately have units: "sort (last_units 2 (nat \<lfloor>(1 / 2 :: rat) * of_nat 2\<rfloor>)) = [1]"
    by simp
  have moved: "mark_moved 2 [1] = [0, 0]"
    by code_simp
  show ?thesis
    unfolding save_augment_recording_def Let_def comp reader n_samples n_units train fake
      units moved loop
    by (simp add: labels)
qed

subsection \<open>The first moved unit when the window is present\<close>

text \<open>
  The loop body reads the object through its calculator and its window only.
\<close>

lemma add_template_depends:
  "aug_template_comp a = aug_template_comp b \<Longrightarrow> aug_window a = aug_window b \<Longrightarrow>
   add_template a moved mt s acc = add_template b moved mt s acc"
  by (simp add: add_template_def Let_def cong: option.case_cong)

lemma add_template_long_window:
  "add_template \<lparr> aug_template_comp = long_calculator, aug_stat_summary = [],
                   aug_window = Some [-10 .. 29] \<rparr>
     (mark_moved 2 [1]) [replicate 40 [3, 3]] (165, 1) (replicate 200 [1, 1], 0)
   = (replicate 155 [1, 1] @ replicate 40 [2, 2] @ replicate 5 [1, 1], 0)"
  by code_simp

text \<open>
  Were the attribute \<^verbatim>\<open>window\<close> set on the object to the window of the calculator, the
  spike (165, 1) of the moved unit 1 would get the original template of ones, not the
  moved template of threes: the samples 155 to 194 become 2.
\<close>

lemma first_moved_unit_original_template:
  "add_template ((RecordingAugmentation_init long_calculator)\<lparr>aug_window := Some [-10 .. 29]\<rparr>)
     (mark_moved 2 [1]) [replicate 40 [3, 3]] (165, 1) (replicate 200 [1, 1], 0)
   = (replicate 155 [1, 1] @ replicate 40 [2, 2] @ replicate 5 [1, 1], 0)"
proof -
  have "add_template
      ((RecordingAugmentation_init long_calculator)\<lparr>aug_window := Some [-10 .. 29]\<rparr>)
      (mark_moved 2 [1]) [replicate 40 [3, 3]] (165, 1) (replicate 200 [1, 1], 0)
    = add_template \<lparr> aug_template_comp = long_calculator, aug_stat_summary = [],
                      aug_window = Some [-10 .. 29] \<rparr>
      (mark_moved 2 [1]) [replicate 40 [3, 3]] (165, 1) (replicate 200 [1, 1], 0)"
    by (rule add_template_depends) (simp_all add: RecordingAugmentation_init_def)
  then show ?thesis by (simp only: add_template_long_window)
qed

section \<open>Properties of the evaluation\<close>

text \<open>
  C2. For the reference train (100, 0), (500, 0), (1000, 1) and the candidate train
  (105, 0), (1005, 1), the constructor returns the confusion matrix [[1, 0], [0, 1]], the
  true-positive rates 1/2 and 1 and the false-discovery rates 0 and 0 (the proximity is
  the constant 60 of the source).
\<close>

theorem evaluation_concrete_scenario:
  "SpikeSortingEvaluation_init [(100, 0), (500, 0), (1000, 1)] [(105, 0), (1005, 1)]
     = Inr \<lparr> sse_n_units = 2, sse_n_clusters = 2,
             sse_spt_base = [(100, 0), (500, 0), (1000, 1)],
             sse_spt = [(105, 0), (1005, 1)],
             sse_spike_count_base = [2, 1],
             sse_spike_count_cluster = [1, 1],
             sse_confusion_matrix = [[1, 0], [0, 1]],
             sse_unit_cluster_map = [0, 1],
             sse_true_positive = [Some (1 / 2), Some 1],
             sse_false_positive = [Some 0, Some 0] \<rparr>"
  by code_simp

text \<open>
  C3 does not hold of the code. \<^verbatim>\<open>unit_cluster_map\<close> holds, for each cluster, the number of
  a unit (the row of the largest entry of the cluster's column), and
  \<^verbatim>\<open>spike_count_cluster[unit_cluster_map]\<close> reads the cluster counts at these unit numbers.
  Below, cluster 1 has one spike and it is matched, so its rate by the claim is
  (1 - 1) / 1 = 0; the code divides by the count of cluster 0 and returns 1/2.
\<close>

theorem false_discovery_other_cluster_count:
  "SpikeSortingEvaluation_init [(100, 0), (500, 0), (900, 0), (5000, 1)]
       [(105, 0), (505, 0), (905, 1)]
     = Inr \<lparr> sse_n_units = 2, sse_n_clusters = 2,
             sse_spt_base = [(100, 0), (500, 0), (900, 0), (5000, 1)],
             sse_spt = [(105, 0), (505, 0), (905, 1)],
             sse_spike_count_base = [3, 1],
             sse_spike_count_cluster = [2, 1],
             sse_confusion_matrix = [[2, 1], [0, 0]],
             sse_unit_cluster_map = [0, 0],
             sse_true_positive = [Some (2 / 3), Some 1],
             sse_false_positive = [Some 0, Some (1 / 2)] \<rparr>"
  by code_simp

subsection \<open>No division by zero\<close>







end
